theory Spec2Isabelle
  imports Complex_Main "HOL-Library.Word"
begin

section \<open>Values shared by the two event engines\<close>

text \<open>
  Channel and group identifiers are JavaScript strings; the engines only compare them
  (\<^verbatim>\<open>Array.prototype.includes\<close>), so they are modelled as \<^typ>\<open>string\<close>.
  A context object \<^verbatim>\<open>{ channels, groups }\<close> is a record; the subscription context
  extends it with the optional \<^verbatim>\<open>cursor\<close> field. A context that is
  \<^verbatim>\<open>undefined\<close> is \<^const>\<open>None\<close>.
\<close>

record cursor =
  timetoken :: string
  region :: int

record channel_groups =
  channels :: "string list"
  groups :: "string list"

record subscribe_context = channel_groups +
  cursor :: "cursor option"

type_synonym presence_context = channel_groups

text \<open>
  The timetoken a caller supplies to \<^verbatim>\<open>restore\<close> is \<^verbatim>\<open>string | number\<close>.
  The handler stores \<^verbatim>\<open>`${payload.cursor.timetoken}`\<close>: a string is kept as it is,
  a number is printed by \<^verbatim>\<open>Number::toString\<close> (the shortest digits that read back
  as the same IEEE double, with \<^verbatim>\<open>NaN\<close>, \<^verbatim>\<open>Infinity\<close>, fractions and exponent
  forms among its results). The handler does nothing else with the number, so a number
  is modelled by the string that \<^verbatim>\<open>Number::toString\<close> prints for it, which
  identifies the double up to the sign of zero.
\<close>

datatype js_number = Printed_as string

fun toString :: "js_number \<Rightarrow> string" where
  "toString (Printed_as s) = s"

datatype js_timetoken = TimetokenString string | TimetokenNumber js_number

fun template_literal :: "js_timetoken \<Rightarrow> string" where
  "template_literal (TimetokenString s) = s"
| "template_literal (TimetokenNumber n) = toString n"




section \<open>State descriptors and transitions\<close>

text \<open>
  Modelled from the spec: the \<^verbatim>\<open>State\<close> class of \<^verbatim>\<open>core/state\<close> is not among the
  sources. A state is a named node with a transition table from event kind to next state,
  next context and emitted effects. \<^verbatim>\<open>state.with(context, effects?)\<close> builds such a
  transition; the effects default to the empty list when the argument is left out.
  States refer to each other cyclically, so a transition names its target by label.
\<close>

type_synonym ('s, 'c, 'f) transition = "'s \<times> 'c \<times> 'f list"

definition state_with :: "'s \<Rightarrow> 'c \<Rightarrow> 'f list option \<Rightarrow> ('s, 'c, 'f) transition" where
  "state_with s context effects = (s, context, (case effects of None \<Rightarrow> [] | Some fs \<Rightarrow> fs))"

section \<open>Subscription event engine: the Unsubscribed state\<close>

text \<open>
  Modelled from the spec: the state list of the Subscription engine and its event kinds
  (the events module is not among the sources). The payloads of
  \<^verbatim>\<open>subscriptionChange\<close> and \<^verbatim>\<open>restore\<close> are the fields the handlers read; the
  payload of every other event is left as a type parameter. An event that the Presence
  engine also has carries the prefix \<open>Subscribe\<close> here.
\<close>

datatype subscribe_state =
    UnsubscribedState
  | HandshakingState
  | HandshakeFailedState
  | HandshakeStoppedState
  | ReceivingState
  | ReceiveFailedState
  | ReceiveStoppedState

datatype 'p subscribe_event =
    SubscriptionChange "string list" "string list"
  | Restore "string list" "string list" js_timetoken int
  | HandshakeSuccess 'p
  | HandshakeFailure 'p
  | ReceiveSuccess 'p
  | ReceiveFailure 'p
  | SubscribeDisconnect 'p
  | SubscribeReconnect 'p
  | SubscribeTimesUp
  | SubscribeRetry

datatype subscribe_event_kind =
    SUBSCRIPTION_CHANGE | RESTORE | HANDSHAKE_SUCCESS | HANDSHAKE_FAILURE
  | RECEIVE_SUCCESS | RECEIVE_FAILURE | DISCONNECT | RECONNECT | TIMES_UP | RETRY

fun subscribe_event_type :: "'p subscribe_event \<Rightarrow> subscribe_event_kind" where
  "subscribe_event_type (SubscriptionChange _ _) = SUBSCRIPTION_CHANGE"
| "subscribe_event_type (Restore _ _ _ _) = RESTORE"
| "subscribe_event_type (HandshakeSuccess _) = HANDSHAKE_SUCCESS"
| "subscribe_event_type (HandshakeFailure _) = HANDSHAKE_FAILURE"
| "subscribe_event_type (ReceiveSuccess _) = RECEIVE_SUCCESS"
| "subscribe_event_type (ReceiveFailure _) = RECEIVE_FAILURE"
| "subscribe_event_type (SubscribeDisconnect _) = DISCONNECT"
| "subscribe_event_type (SubscribeReconnect _) = RECONNECT"
| "subscribe_event_type SubscribeTimesUp = TIMES_UP"
| "subscribe_event_type SubscribeRetry = RETRY"

type_synonym 'f subscribe_transition =
  "(subscribe_state, subscribe_context option, 'f) transition"

text \<open>
  The handler registered with \<^verbatim>\<open>UnsubscribedState.on(subscriptionChange.type, ...)\<close>.
  It ignores the current context. The new context has no \<^verbatim>\<open>cursor\<close> field.
\<close>

definition UnsubscribedState_on_subscriptionChange ::
  "subscribe_context option \<Rightarrow> string list \<Rightarrow> string list \<Rightarrow> 'f subscribe_transition" where
  "UnsubscribedState_on_subscriptionChange _ payload_channels payload_groups =
     (if length payload_channels = 0 \<and> length payload_groups = 0
      then state_with UnsubscribedState None None
      else state_with HandshakingState
             (Some \<lparr>channels = payload_channels, groups = payload_groups, cursor = None\<rparr>) None)"

text \<open>The handler registered with \<^verbatim>\<open>UnsubscribedState.on(restore.type, ...)\<close>.\<close>

definition UnsubscribedState_on_restore ::
  "subscribe_context option \<Rightarrow> string list \<Rightarrow> string list \<Rightarrow> js_timetoken \<Rightarrow> int
     \<Rightarrow> 'f subscribe_transition" where
  "UnsubscribedState_on_restore _ payload_channels payload_groups cursor_timetoken cursor_region =
     (if length payload_channels = 0 \<and> length payload_groups = 0
      then state_with UnsubscribedState None None
      else state_with HandshakingState
             (Some \<lparr>channels = payload_channels, groups = payload_groups,
                    cursor = Some \<lparr>timetoken = template_literal cursor_timetoken,
                                   region = cursor_region\<rparr>\<rparr>) None)"

text \<open>
  The transition table of the state: the two \<^verbatim>\<open>on\<close> registrations, looked up by the
  kind of the event. An event kind with no registration has no transition.
\<close>

fun UnsubscribedState_transition ::
  "subscribe_context option \<Rightarrow> 'p subscribe_event \<Rightarrow> 'f subscribe_transition option" where
  "UnsubscribedState_transition context (SubscriptionChange cs gs) =
     Some (UnsubscribedState_on_subscriptionChange context cs gs)"
| "UnsubscribedState_transition context (Restore cs gs tt r) =
     Some (UnsubscribedState_on_restore context cs gs tt r)"
| "UnsubscribedState_transition context _ = None"

text \<open>No enter or exit effect is registered on the Unsubscribed state.\<close>

definition UnsubscribedState_enterEffects :: "(subscribe_context option \<Rightarrow> 'f) list" where
  "UnsubscribedState_enterEffects = []"

definition UnsubscribedState_exitEffects :: "(subscribe_context option \<Rightarrow> 'f) list" where
  "UnsubscribedState_exitEffects = []"

section \<open>Event engine core\<close>

text \<open>
  Modelled from the spec: the engine runtime (\<^verbatim>\<open>core/engine\<close>) is not among the
  sources. The engine holds the current state and context. Processing an event looks up
  the transition of the current state for the kind of the event; if there is none the
  event is a no-op; otherwise the current state and context are replaced and the effects
  are handed to the dispatcher in emitted order. A state exit must cancel what the state
  started, so the effects a state registers with \<^verbatim>\<open>onExit\<close> come first (for the
  state that is left, on its context), then the effects of the transition, then the
  effects registered with \<^verbatim>\<open>onEnter\<close> (for the state that is entered, on the new
  context).
\<close>

record ('s, 'c) engine =
  currentState :: 's
  currentContext :: 'c

record ('s, 'c, 'e, 'f) machine =
  transitionMap :: "'s \<Rightarrow> 'c \<Rightarrow> 'e \<Rightarrow> ('s, 'c, 'f) transition option"
  enterEffects :: "'s \<Rightarrow> ('c \<Rightarrow> 'f) list"
  exitEffects :: "'s \<Rightarrow> ('c \<Rightarrow> 'f) list"

definition engine_transition ::
  "('s, 'c, 'e, 'f) machine \<Rightarrow> ('s, 'c) engine \<Rightarrow> 'e \<Rightarrow> ('s, 'c) engine \<times> 'f list" where
  "engine_transition M eng event =
     (case transitionMap M (currentState eng) (currentContext eng) event of
        None \<Rightarrow> (eng, [])
      | Some (newState, newContext, effects) \<Rightarrow>
          (\<lparr>currentState = newState, currentContext = newContext\<rparr>,
           map (\<lambda>effect. effect (currentContext eng)) (exitEffects M (currentState eng))
           @ effects
           @ map (\<lambda>effect. effect newContext) (enterEffects M newState)))"

text \<open>
  The Subscription engine as far as the sources give it: the Unsubscribed state is the one
  above, the other states (their tables and hooks) are parameters.
\<close>

definition subscribe_machine ::
  "(subscribe_state \<Rightarrow> subscribe_context option \<Rightarrow> 'p subscribe_event
      \<Rightarrow> 'f subscribe_transition option)
   \<Rightarrow> (subscribe_state \<Rightarrow> (subscribe_context option \<Rightarrow> 'f) list)
   \<Rightarrow> (subscribe_state \<Rightarrow> (subscribe_context option \<Rightarrow> 'f) list)
   \<Rightarrow> (subscribe_state, subscribe_context option, 'p subscribe_event, 'f) machine" where
  "subscribe_machine other_tables other_enter other_exit =
     \<lparr>transitionMap = (\<lambda>s. if s = UnsubscribedState then UnsubscribedState_transition
                            else other_tables s),
      enterEffects = (\<lambda>s. if s = UnsubscribedState then UnsubscribedState_enterEffects
                           else other_enter s),
      exitEffects = (\<lambda>s. if s = UnsubscribedState then UnsubscribedState_exitEffects
                          else other_exit s)\<rparr>"

section \<open>Presence event engine: the HeartbeatCooldown state\<close>

text \<open>
  Modelled from the spec: the state list of the Presence engine, its event kinds and its
  effects (the events and effects modules are not among the sources). The payloads are
  the fields the handlers read: \<^verbatim>\<open>channels\<close> and \<^verbatim>\<open>groups\<close> for
  \<^verbatim>\<open>joined\<close> and \<^verbatim>\<open>left\<close>, \<^verbatim>\<open>isOffline\<close> for \<^verbatim>\<open>disconnect\<close> and
  \<^verbatim>\<open>leftAll\<close>. \<^verbatim>\<open>wait()\<close> is \<open>Wait\<close>, \<^verbatim>\<open>wait.cancel\<close> is \<open>Cancel_Wait\<close>,
  \<^verbatim>\<open>leave(channels, groups)\<close> is \<open>Leave channels groups\<close>.
\<close>

datatype presence_state =
    HeartbeatInactiveState
  | HeartbeatingState
  | HeartbeatCooldownState
  | HeartbeatFailedState
  | HeartbeatStoppedState

datatype 'p presence_event =
    Joined "string list" "string list"
  | Left "string list" "string list"
  | LeftAll bool
  | Disconnect bool
  | Reconnect 'p
  | HeartbeatSuccess 'p
  | HeartbeatFailure 'p
  | TimesUp

datatype presence_effect =
    Heartbeat "string list" "string list"
  | Leave "string list" "string list"
  | EmitStatus
  | Wait
  | Cancel_Wait

type_synonym presence_transition =
  "(presence_state, presence_context option, presence_effect) transition"

text \<open>
  The handlers registered on \<^verbatim>\<open>HeartbeatCooldownState\<close>, in the order of the source.
  The state is declared over a context that has \<^verbatim>\<open>channels\<close> and \<^verbatim>\<open>groups\<close>, so
  the handlers take a defined context. \<^verbatim>\<open>xs.includes(x)\<close> is \<open>x \<in> set xs\<close>,
  \<^verbatim>\<open>xs.filter(p)\<close> is \<^const>\<open>filter\<close>, the spread \<^verbatim>\<open>[...xs, ...ys]\<close> is \<open>xs @ ys\<close>.
\<close>

definition HeartbeatCooldownState_on_timesUp :: "presence_context \<Rightarrow> presence_transition" where
  "HeartbeatCooldownState_on_timesUp context =
     state_with HeartbeatingState
       (Some \<lparr>channels = channels context, groups = groups context\<rparr>) None"

definition HeartbeatCooldownState_on_joined ::
  "presence_context \<Rightarrow> string list \<Rightarrow> string list \<Rightarrow> presence_transition" where
  "HeartbeatCooldownState_on_joined context payload_channels payload_groups =
     state_with HeartbeatingState
       (Some \<lparr>channels = channels context
                  @ filter (\<lambda>channel. \<not> channel \<in> set (channels context)) payload_channels,
              groups = groups context
                  @ filter (\<lambda>group. \<not> group \<in> set (groups context)) payload_groups\<rparr>) None"

definition HeartbeatCooldownState_on_left ::
  "presence_context \<Rightarrow> string list \<Rightarrow> string list \<Rightarrow> presence_transition" where
  "HeartbeatCooldownState_on_left context payload_channels payload_groups =
     state_with HeartbeatingState
       (Some \<lparr>channels = filter (\<lambda>channel. \<not> channel \<in> set payload_channels) (channels context),
              groups = filter (\<lambda>group. \<not> group \<in> set payload_groups) (groups context)\<rparr>)
       (Some [Leave payload_channels payload_groups])"

definition HeartbeatCooldownState_on_disconnect ::
  "presence_context \<Rightarrow> bool \<Rightarrow> presence_transition" where
  "HeartbeatCooldownState_on_disconnect context isOffline =
     state_with HeartbeatStoppedState
       (Some \<lparr>channels = channels context, groups = groups context\<rparr>)
       (Some ((if \<not> isOffline then [Leave (channels context) (groups context)] else []) @ []))"

definition HeartbeatCooldownState_on_leftAll ::
  "presence_context \<Rightarrow> bool \<Rightarrow> presence_transition" where
  "HeartbeatCooldownState_on_leftAll context isOffline =
     state_with HeartbeatInactiveState None
       (Some ((if \<not> isOffline then [Leave (channels context) (groups context)] else []) @ []))"

text \<open>The transition table of the state: the five \<^verbatim>\<open>on\<close> registrations.\<close>

fun HeartbeatCooldownState_transition ::
  "presence_context \<Rightarrow> 'p presence_event \<Rightarrow> presence_transition option" where
  "HeartbeatCooldownState_transition context TimesUp =
     Some (HeartbeatCooldownState_on_timesUp context)"
| "HeartbeatCooldownState_transition context (Joined cs gs) =
     Some (HeartbeatCooldownState_on_joined context cs gs)"
| "HeartbeatCooldownState_transition context (Left cs gs) =
     Some (HeartbeatCooldownState_on_left context cs gs)"
| "HeartbeatCooldownState_transition context (Disconnect isOffline) =
     Some (HeartbeatCooldownState_on_disconnect context isOffline)"
| "HeartbeatCooldownState_transition context (LeftAll isOffline) =
     Some (HeartbeatCooldownState_on_leftAll context isOffline)"
| "HeartbeatCooldownState_transition context _ = None"

text \<open>
  \<^verbatim>\<open>HeartbeatCooldownState.onEnter(() => wait())\<close> and
  \<^verbatim>\<open>HeartbeatCooldownState.onExit(() => wait.cancel)\<close>.
\<close>

definition HeartbeatCooldownState_enterEffects ::
  "(presence_context option \<Rightarrow> presence_effect) list" where
  "HeartbeatCooldownState_enterEffects = [\<lambda>_. Wait]"

definition HeartbeatCooldownState_exitEffects ::
  "(presence_context option \<Rightarrow> presence_effect) list" where
  "HeartbeatCooldownState_exitEffects = [\<lambda>_. Cancel_Wait]"

text \<open>
  The Presence engine as far as the sources give it: the HeartbeatCooldown state is the
  one above, the other states are parameters. The cooldown state is typed over a defined
  context; what an undefined context would do there is not part of the model and stays
  with the parameters.
\<close>

definition presence_machine ::
  "(presence_state \<Rightarrow> presence_context option \<Rightarrow> 'p presence_event
      \<Rightarrow> presence_transition option)
   \<Rightarrow> (presence_state \<Rightarrow> (presence_context option \<Rightarrow> presence_effect) list)
   \<Rightarrow> (presence_state \<Rightarrow> (presence_context option \<Rightarrow> presence_effect) list)
   \<Rightarrow> (presence_state, presence_context option, 'p presence_event, presence_effect) machine"
  where
  "presence_machine other_tables other_enter other_exit =
     \<lparr>transitionMap = (\<lambda>s c event.
          (case c of
             Some context \<Rightarrow>
               if s = HeartbeatCooldownState then HeartbeatCooldownState_transition context event
               else other_tables s c event
           | None \<Rightarrow> other_tables s c event)),
      enterEffects = (\<lambda>s. if s = HeartbeatCooldownState then HeartbeatCooldownState_enterEffects
                           else other_enter s),
      exitEffects = (\<lambda>s. if s = HeartbeatCooldownState then HeartbeatCooldownState_exitEffects
                          else other_exit s)\<rparr>"

section \<open>Effect dispatcher: the wait timer\<close>

text \<open>
  Modelled from the spec: the dispatcher is not among the sources. It tracks one active
  cancellation handle per kind of managed effect; only the handle of the \<^verbatim>\<open>wait\<close>
  timer matters here. Starting \<^verbatim>\<open>wait\<close> replaces any outstanding timer and leaves one
  pending; the cancellation drops the pending timer; other effects leave it alone. When
  the delay runs out, a timer that is still pending delivers \<^verbatim>\<open>timesUp\<close> to the
  engine; a cancelled timer is dropped and delivers nothing.
\<close>

fun dispatch :: "bool \<Rightarrow> presence_effect \<Rightarrow> bool" where
  "dispatch pending Wait = True"
| "dispatch pending Cancel_Wait = False"
| "dispatch pending _ = pending"

record presence_runtime =
  engine :: "(presence_state, presence_context option) engine"
  waitPending :: bool

definition presence_send ::
  "(presence_state, presence_context option, 'p presence_event, presence_effect) machine
   \<Rightarrow> presence_runtime \<Rightarrow> 'p presence_event \<Rightarrow> presence_runtime" where
  "presence_send M rt event =
     (case engine_transition M (engine rt) event of
        (eng, effects) \<Rightarrow> \<lparr>engine = eng, waitPending = foldl dispatch (waitPending rt) effects\<rparr>)"

definition timer_fires ::
  "(presence_state, presence_context option, 'p presence_event, presence_effect) machine
   \<Rightarrow> presence_runtime \<Rightarrow> presence_runtime" where
  "timer_fires M rt =
     (if waitPending rt then presence_send M (rt\<lparr>waitPending := False\<rparr>) TimesUp else rt)"

text \<open>
  Modelled from the spec: the one transition into the cooldown that the spec lists,
  \<open>Heartbeating + heartbeatSuccess \<rightarrow> HeartbeatCooldown\<close>, for the same channels and
  groups. It stands in for the tables of the other states in the examples below.
\<close>

definition spec_other_tables ::
  "presence_state \<Rightarrow> presence_context option \<Rightarrow> unit presence_event
     \<Rightarrow> presence_transition option" where
  "spec_other_tables s c event =
     (if s = HeartbeatingState
      then (case event of
              HeartbeatSuccess _ \<Rightarrow> Some (HeartbeatCooldownState, c, [])
            | _ \<Rightarrow> None)
      else None)"

section \<open>App Context requests: parameter validation\<close>

text \<open>
  An optional property is an \<^typ>\<open>'a option\<close>, with \<^const>\<open>None\<close> for
  \<^verbatim>\<open>undefined\<close>. \<^verbatim>\<open>!s\<close> on an optional string holds when the string is missing
  or has no characters; \<^verbatim>\<open>x ??= d\<close> stores \<open>d\<close> when \<open>x\<close> is missing. Where two
  source objects share a property name, the later record prefixes it with
  \<open>parameters_\<close>. The parameters a request does not read here (\<^verbatim>\<open>type\<close>,
  \<^verbatim>\<open>keySet\<close>, \<^verbatim>\<open>page\<close>, \<^verbatim>\<open>filter\<close>, \<^verbatim>\<open>sort\<close>) stay in the extension
  of the record.
\<close>

definition falsy :: "string option \<Rightarrow> bool" where
  "falsy s = (case s of None \<Rightarrow> True | Some v \<Rightarrow> v = [])"

definition nullish_assign :: "'a option \<Rightarrow> 'a \<Rightarrow> 'a option" where
  "nullish_assign x d = (case x of None \<Rightarrow> Some d | Some v \<Rightarrow> Some v)"

definition quoted :: "string \<Rightarrow> string" where
  "quoted s = CHR 0x27 # s @ [CHR 0x27]"

definition INCLUDE_CUSTOM_FIELDS :: bool where "INCLUDE_CUSTOM_FIELDS = False"
definition INCLUDE_STATUS :: bool where "INCLUDE_STATUS = False"
definition INCLUDE_TYPE :: bool where "INCLUDE_TYPE = False"
definition INCLUDE_TOTAL_COUNT :: bool where "INCLUDE_TOTAL_COUNT = False"
definition INCLUDE_UUID_FIELDS :: bool where "INCLUDE_UUID_FIELDS = False"
definition INCLUDE_UUID_STATUS_FIELD :: bool where "INCLUDE_UUID_STATUS_FIELD = False"
definition INCLUDE_UUID_TYPE_FIELD :: bool where "INCLUDE_UUID_TYPE_FIELD = False"
definition INCLUDE_UUID_CUSTOM_FIELDS :: bool where "INCLUDE_UUID_CUSTOM_FIELDS = False"
definition INCLUDE_CHANNEL_FIELDS :: bool where "INCLUDE_CHANNEL_FIELDS = False"
definition INCLUDE_CHANNEL_STATUS_FIELD :: bool where "INCLUDE_CHANNEL_STATUS_FIELD = False"
definition INCLUDE_CHANNEL_TYPE_FIELD :: bool where "INCLUDE_CHANNEL_TYPE_FIELD = False"
definition INCLUDE_CHANNEL_CUSTOM_FIELDS :: bool where "INCLUDE_CHANNEL_CUSTOM_FIELDS = False"
definition LIMIT :: int where "LIMIT = 100"

record include_common =
  customFields :: "bool option"
  totalCount :: "bool option"
  statusField :: "bool option"
  typeField :: "bool option"

record members_include = include_common +
  UUIDFields :: "bool option"
  customUUIDFields :: "bool option"
  UUIDStatusField :: "bool option"
  UUIDTypeField :: "bool option"

record memberships_include = include_common +
  channelFields :: "bool option"
  customChannelFields :: "bool option"
  channelStatusField :: "bool option"
  channelTypeField :: "bool option"

subsection \<open>Set Channel Members\<close>

record 'u set_channel_members_parameters =
  channel :: "string option"
  uuids :: "'u list option"
  members_include :: "members_include option"
  members_limit :: "int option"

text \<open>The constructor applies the default request parameters.\<close>

definition SetChannelMembersRequest ::
  "('u, 'z) set_channel_members_parameters_scheme
   \<Rightarrow> ('u, 'z) set_channel_members_parameters_scheme" where
  "SetChannelMembersRequest parameters =
     (let inc = (case members_include parameters of
                   None \<Rightarrow> \<lparr>customFields = None, totalCount = None, statusField = None,
                             typeField = None, UUIDFields = None, customUUIDFields = None,
                             UUIDStatusField = None, UUIDTypeField = None\<rparr>
                 | Some i \<Rightarrow> i);
          inc = inc\<lparr>customFields := nullish_assign (customFields inc) INCLUDE_CUSTOM_FIELDS\<rparr>;
          inc = inc\<lparr>totalCount := nullish_assign (totalCount inc) INCLUDE_TOTAL_COUNT\<rparr>;
          inc = inc\<lparr>statusField := nullish_assign (statusField inc) INCLUDE_STATUS\<rparr>;
          inc = inc\<lparr>typeField := nullish_assign (typeField inc) INCLUDE_TYPE\<rparr>;
          inc = inc\<lparr>UUIDFields := nullish_assign (UUIDFields inc) INCLUDE_UUID_FIELDS\<rparr>;
          inc = inc\<lparr>customUUIDFields :=
                  nullish_assign (customUUIDFields inc) INCLUDE_UUID_CUSTOM_FIELDS\<rparr>;
          inc = inc\<lparr>UUIDStatusField :=
                  nullish_assign (UUIDStatusField inc) INCLUDE_UUID_STATUS_FIELD\<rparr>;
          inc = inc\<lparr>UUIDTypeField := nullish_assign (UUIDTypeField inc) INCLUDE_UUID_TYPE_FIELD\<rparr>
      in parameters\<lparr>members_include := Some inc,
                    members_limit := nullish_assign (members_limit parameters) LIMIT\<rparr>)"

text \<open>
  \<^verbatim>\<open>validate()\<close> returns the error message, or \<^verbatim>\<open>undefined\<close> (\<^const>\<open>None\<close>) when
  the parameters pass.
\<close>

definition SetChannelMembersRequest_validate ::
  "('u, 'z) set_channel_members_parameters_scheme \<Rightarrow> string option" where
  "SetChannelMembersRequest_validate parameters =
     (if falsy (channel parameters) then Some ''Channel cannot be empty''
      else (case uuids parameters of
              None \<Rightarrow> Some ''UUIDs cannot be empty''
            | Some us \<Rightarrow> if length us = 0 then Some ''UUIDs cannot be empty'' else None))"

subsection \<open>Set UUID Memberships\<close>

record 'c set_memberships_parameters =
  parameters_uuid :: "string option"
  parameters_userId :: "string option"
  parameters_channels :: "'c list option"
  memberships_include :: "memberships_include option"
  memberships_limit :: "int option"

text \<open>
  The constructor applies the default request parameters, then remaps \<^verbatim>\<open>userId\<close> to
  \<^verbatim>\<open>uuid\<close> when \<^verbatim>\<open>userId\<close> is a non-empty string.
\<close>

definition SetUUIDMembershipsRequest ::
  "('c, 'z) set_memberships_parameters_scheme \<Rightarrow> ('c, 'z) set_memberships_parameters_scheme"
  where
  "SetUUIDMembershipsRequest parameters =
     (let inc = (case memberships_include parameters of
                   None \<Rightarrow> \<lparr>customFields = None, totalCount = None, statusField = None,
                             typeField = None, channelFields = None,
                             customChannelFields = None, channelStatusField = None,
                             channelTypeField = None\<rparr>
                 | Some i \<Rightarrow> i);
          inc = inc\<lparr>customFields := nullish_assign (customFields inc) INCLUDE_CUSTOM_FIELDS\<rparr>;
          inc = inc\<lparr>totalCount := nullish_assign (totalCount inc) INCLUDE_TOTAL_COUNT\<rparr>;
          inc = inc\<lparr>statusField := nullish_assign (statusField inc) INCLUDE_STATUS\<rparr>;
          inc = inc\<lparr>typeField := nullish_assign (typeField inc) INCLUDE_TYPE\<rparr>;
          inc = inc\<lparr>channelFields := nullish_assign (channelFields inc) INCLUDE_CHANNEL_FIELDS\<rparr>;
          inc = inc\<lparr>customChannelFields :=
                  nullish_assign (customChannelFields inc) INCLUDE_CHANNEL_CUSTOM_FIELDS\<rparr>;
          inc = inc\<lparr>channelStatusField :=
                  nullish_assign (channelStatusField inc) INCLUDE_CHANNEL_STATUS_FIELD\<rparr>;
          inc = inc\<lparr>channelTypeField :=
                  nullish_assign (channelTypeField inc) INCLUDE_CHANNEL_TYPE_FIELD\<rparr>;
          parameters = parameters\<lparr>memberships_include := Some inc,
                          memberships_limit := nullish_assign (memberships_limit parameters) LIMIT\<rparr>
      in if \<not> falsy (parameters_userId parameters)
         then parameters\<lparr>parameters_uuid := parameters_userId parameters\<rparr>
         else parameters)"

definition SetUUIDMembershipsRequest_validate ::
  "('c, 'z) set_memberships_parameters_scheme \<Rightarrow> string option" where
  "SetUUIDMembershipsRequest_validate parameters =
     (if falsy (parameters_uuid parameters) then Some (quoted ''uuid'' @ '' cannot be empty'')
      else (case parameters_channels parameters of
              None \<Rightarrow> Some ''Channels cannot be empty''
            | Some cs \<Rightarrow> if length cs = 0 then Some ''Channels cannot be empty'' else None))"

section \<open>Client configuration defaults\<close>

text \<open>
  \<^verbatim>\<open>userId\<close> and \<^verbatim>\<open>uuid\<close> are JavaScript strings whose white space
  \<^verbatim>\<open>String.prototype.trim\<close> strips; that set reaches beyond Latin-1, so these two
  strings are lists of UTF-16 code units. \<^verbatim>\<open>trim\<close> removes the code units of
  \<^verbatim>\<open>WhiteSpace\<close> and \<^verbatim>\<open>LineTerminator\<close> from both ends.
\<close>

type_synonym js_string = "16 word list"

definition isWhiteSpace :: "16 word \<Rightarrow> bool" where
  "isWhiteSpace c =
     (c = 0x0009 \<or> c = 0x000A \<or> c = 0x000B \<or> c = 0x000C \<or> c = 0x000D \<or> c = 0x0020
      \<or> c = 0x00A0 \<or> c = 0x1680 \<or> (0x2000 \<le> c \<and> c \<le> 0x200A) \<or> c = 0x2028
      \<or> c = 0x2029 \<or> c = 0x202F \<or> c = 0x205F \<or> c = 0x3000 \<or> c = 0xFEFF)"

definition trim :: "js_string \<Rightarrow> js_string" where
  "trim s = rev (dropWhile isWhiteSpace (rev (dropWhile isWhiteSpace s)))"

definition truthy :: "js_string option \<Rightarrow> bool" where
  "truthy s = (case s of None \<Rightarrow> False | Some v \<Rightarrow> v \<noteq> [])"

definition nullish_coalesce :: "'a option \<Rightarrow> 'a option \<Rightarrow> 'a option" where
  "nullish_coalesce x y = (case x of None \<Rightarrow> y | Some v \<Rightarrow> Some v)"

datatype error = PubNubError string

text \<open>
  The legacy options are read through \<^verbatim>\<open>typeof\<close>, so their values keep a tag.
  Numbers that are only stored or compared with integer bounds are integers;
  \<^verbatim>\<open>heartbeatInterval\<close>, which is computed as \<^verbatim>\<open>presenceTimeout / 2 - 1\<close>, is a
  real (the halves of integers up to the maximum timeout are exact in a double).
\<close>

datatype js_value = JSBoolean bool | JSNumber int | JSOther

datatype origin = OriginString string | OriginList "string list"

definition USE_SSL :: bool where "USE_SSL = True"
definition RESTORE_DEFAULT :: bool where "RESTORE_DEFAULT = False"
definition AUTO_NETWORK_DETECTION :: bool where "AUTO_NETWORK_DETECTION = False"
definition DEDUPE_ON_SUBSCRIBE :: bool where "DEDUPE_ON_SUBSCRIBE = False"
definition DEDUPE_CACHE_SIZE :: int where "DEDUPE_CACHE_SIZE = 100"
definition FILE_PUBLISH_RETRY_LIMIT :: int where "FILE_PUBLISH_RETRY_LIMIT = 5"
definition ENABLE_EVENT_ENGINE :: bool where "ENABLE_EVENT_ENGINE = False"
definition MAINTAIN_PRESENCE_STATE :: bool where "MAINTAIN_PRESENCE_STATE = True"
definition USE_SMART_HEARTBEAT :: bool where "USE_SMART_HEARTBEAT = False"
definition KEEP_ALIVE :: bool where "KEEP_ALIVE = False"
definition SUPPRESS_LEAVE_EVENTS :: bool where "SUPPRESS_LEAVE_EVENTS = False"
definition ANNOUNCE_HEARTBEAT_FAILURE :: bool where "ANNOUNCE_HEARTBEAT_FAILURE = True"
definition ANNOUNCE_HEARTBEAT_SUCCESS :: bool where "ANNOUNCE_HEARTBEAT_SUCCESS = False"
definition USE_INSTANCE_ID :: bool where "USE_INSTANCE_ID = False"
definition USE_REQUEST_ID :: bool where "USE_REQUEST_ID = True"
definition TRANSACTIONAL_REQUEST_TIMEOUT :: int where "TRANSACTIONAL_REQUEST_TIMEOUT = 15"
definition SUBSCRIBE_REQUEST_TIMEOUT :: int where "SUBSCRIBE_REQUEST_TIMEOUT = 310"
definition FILE_REQUEST_TIMEOUT :: int where "FILE_REQUEST_TIMEOUT = 300"
definition PRESENCE_TIMEOUT :: int where "PRESENCE_TIMEOUT = 300"
definition PRESENCE_TIMEOUT_MAXIMUM :: int where "PRESENCE_TIMEOUT_MAXIMUM = 320"

record key_set =
  subscribeKey :: string
  publishKey :: "string option"
  secretKey :: "string option"

record user_configuration = key_set +
  userId :: "js_string option"
  uuid :: "js_string option"
  ssl :: "bool option"
  origin :: "origin option"
  presenceTimeout :: "int option"
  heartbeatInterval :: "real option"
  transactionalRequestTimeout :: "int option"
  subscribeRequestTimeout :: "int option"
  fileRequestTimeout :: "int option"
  restore :: "bool option"
  useInstanceId :: "bool option"
  suppressLeaveEvents :: "bool option"
  requestMessageCountThreshold :: "int option"
  autoNetworkDetection :: "bool option"
  enableEventEngine :: "bool option"
  maintainPresenceState :: "bool option"
  useSmartHeartbeat :: "bool option"
  keepAlive :: "bool option"
  dedupeOnSubscribe :: "js_value option"
  maximumCacheSize :: "js_value option"
  useRequestId :: "js_value option"
  announceSuccessfulHeartbeats :: "js_value option"
  announceFailedHeartbeats :: "js_value option"
  fileUploadPublishRetryLimit :: "js_value option"

record extended_configuration = user_configuration +
  keySet :: key_set

text \<open>The thirteen \<^verbatim>\<open>??=\<close> assignments at the head of \<^verbatim>\<open>setDefaults\<close>.\<close>

definition base_defaults :: "user_configuration \<Rightarrow> user_configuration" where
  "base_defaults configurationCopy =
     configurationCopy
       \<lparr>ssl := nullish_assign (ssl configurationCopy) USE_SSL,
        transactionalRequestTimeout :=
          nullish_assign (transactionalRequestTimeout configurationCopy)
            TRANSACTIONAL_REQUEST_TIMEOUT,
        subscribeRequestTimeout :=
          nullish_assign (subscribeRequestTimeout configurationCopy) SUBSCRIBE_REQUEST_TIMEOUT,
        fileRequestTimeout :=
          nullish_assign (fileRequestTimeout configurationCopy) FILE_REQUEST_TIMEOUT,
        restore := nullish_assign (restore configurationCopy) RESTORE_DEFAULT,
        useInstanceId := nullish_assign (useInstanceId configurationCopy) USE_INSTANCE_ID,
        suppressLeaveEvents :=
          nullish_assign (suppressLeaveEvents configurationCopy) SUPPRESS_LEAVE_EVENTS,
        requestMessageCountThreshold :=
          nullish_assign (requestMessageCountThreshold configurationCopy) DEDUPE_CACHE_SIZE,
        autoNetworkDetection :=
          nullish_assign (autoNetworkDetection configurationCopy) AUTO_NETWORK_DETECTION,
        enableEventEngine :=
          nullish_assign (enableEventEngine configurationCopy) ENABLE_EVENT_ENGINE,
        maintainPresenceState :=
          nullish_assign (maintainPresenceState configurationCopy) MAINTAIN_PRESENCE_STATE,
        useSmartHeartbeat :=
          nullish_assign (useSmartHeartbeat configurationCopy) USE_SMART_HEARTBEAT,
        keepAlive := nullish_assign (keepAlive configurationCopy) KEEP_ALIVE\<rparr>"

text \<open>
  The default origin \<^verbatim>\<open>Array.from({ length: 20 }, (_, i) => `ps${i + 1}.pndsn.com`)\<close>,
  stored when \<^verbatim>\<open>origin\<close> is missing or the empty string (an array is truthy).
  \<^verbatim>\<open>`${i + 1}`\<close> is only ever applied to the indices 1 to 20, small integers that
  JavaScript prints as their decimal digits; \<open>decimal\<close> is used for nothing else.
\<close>

definition digit_char :: "nat \<Rightarrow> char" where
  "digit_char d = ''0123456789'' ! d"

fun decimal :: "nat \<Rightarrow> string" where
  "decimal n =
     (if n < 10 then [digit_char n]
      else decimal (n div 10) @ [digit_char (n mod 10)])"

declare decimal.simps [simp del]

definition default_origin :: origin where
  "default_origin = OriginList (map (\<lambda>i. ''ps'' @ decimal (i + 1) @ ''.pndsn.com'') [0..<20])"

definition origin_falsy :: "origin option \<Rightarrow> bool" where
  "origin_falsy v = (case v of None \<Rightarrow> True | Some (OriginString s) \<Rightarrow> s = []
                     | Some (OriginList _) \<Rightarrow> False)"

text \<open>
  The presence timeout: clamped to the maximum, deleted when not positive; a timeout that
  remains sets the heartbeat interval, a missing one becomes the default.
\<close>

definition presence_defaults :: "user_configuration \<Rightarrow> user_configuration" where
  "presence_defaults configurationCopy =
     (let configurationCopy =
            (case presenceTimeout configurationCopy of
               None \<Rightarrow> configurationCopy
             | Some t \<Rightarrow>
                 if t > PRESENCE_TIMEOUT_MAXIMUM
                 then configurationCopy\<lparr>presenceTimeout := Some PRESENCE_TIMEOUT_MAXIMUM\<rparr>
                 else if t \<le> 0 then configurationCopy\<lparr>presenceTimeout := None\<rparr>
                 else configurationCopy)
      in (case presenceTimeout configurationCopy of
            Some t \<Rightarrow> configurationCopy\<lparr>heartbeatInterval := Some (real_of_int t / 2 - 1)\<rparr>
          | None \<Rightarrow> configurationCopy\<lparr>presenceTimeout := Some PRESENCE_TIMEOUT\<rparr>))"

text \<open>The legacy options: a value is taken over only when it has the expected type.\<close>

definition legacy_boolean :: "js_value option \<Rightarrow> bool \<Rightarrow> bool" where
  "legacy_boolean v d = (case v of Some (JSBoolean b) \<Rightarrow> b | _ \<Rightarrow> d)"

definition legacy_number :: "js_value option \<Rightarrow> int \<Rightarrow> int" where
  "legacy_number v d = (case v of Some (JSNumber n) \<Rightarrow> n | _ \<Rightarrow> d)"

text \<open>
  The part of \<^verbatim>\<open>setDefaults\<close> after the user identifier has been accepted; nothing in
  it throws.
\<close>

definition extended_defaults :: "user_configuration \<Rightarrow> extended_configuration" where
  "extended_defaults configurationCopy =
     (let configurationCopy =
            (if origin_falsy (origin configurationCopy)
             then configurationCopy\<lparr>origin := Some default_origin\<rparr> else configurationCopy);
          keySet = \<lparr>subscribeKey = subscribeKey configurationCopy,
                    publishKey = publishKey configurationCopy,
                    secretKey = secretKey configurationCopy\<rparr>;
          configurationCopy = presence_defaults configurationCopy;
          announceSuccessfulHeartbeats =
            legacy_boolean (announceSuccessfulHeartbeats configurationCopy)
              ANNOUNCE_HEARTBEAT_SUCCESS;
          announceFailedHeartbeats =
            legacy_boolean (announceFailedHeartbeats configurationCopy)
              ANNOUNCE_HEARTBEAT_FAILURE;
          fileUploadPublishRetryLimit =
            legacy_number (fileUploadPublishRetryLimit configurationCopy)
              FILE_PUBLISH_RETRY_LIMIT;
          dedupeOnSubscribe =
            legacy_boolean (dedupeOnSubscribe configurationCopy) DEDUPE_ON_SUBSCRIBE;
          maximumCacheSize = legacy_number (maximumCacheSize configurationCopy) DEDUPE_CACHE_SIZE;
          useRequestId = legacy_boolean (useRequestId configurationCopy) USE_REQUEST_ID
      in user_configuration.extend
           (configurationCopy
              \<lparr>dedupeOnSubscribe := Some (JSBoolean dedupeOnSubscribe),
               maximumCacheSize := Some (JSNumber maximumCacheSize),
               useRequestId := Some (JSBoolean useRequestId),
               announceSuccessfulHeartbeats := Some (JSBoolean announceSuccessfulHeartbeats),
               announceFailedHeartbeats := Some (JSBoolean announceFailedHeartbeats),
               fileUploadPublishRetryLimit := Some (JSNumber fileUploadPublishRetryLimit)\<rparr>)
           (extended_configuration.fields keySet))"

text \<open>
  \<^verbatim>\<open>setDefaults\<close>: every \<^verbatim>\<open>throw new PubNubError(...)\<close> is an \<^const>\<open>Inl\<close>,
  a normal return is an \<^const>\<open>Inr\<close>.
\<close>

definition setDefaults :: "user_configuration \<Rightarrow> error + extended_configuration" where
  "setDefaults configuration =
     (let configurationCopy = base_defaults configuration
      in if truthy (userId configurationCopy) \<and> truthy (uuid configurationCopy)
         then Inl (PubNubError (''PubNub client configuration error: use only '' @ quoted ''userId''))
         else
           let configurationCopy =
                 configurationCopy
                   \<lparr>userId := nullish_coalesce (userId configurationCopy)
                                (uuid configurationCopy)\<rparr>
           in if \<not> truthy (userId configurationCopy)
              then Inl (PubNubError
                     (''PubNub client configuration error: '' @ quoted ''userId'' @ '' not set''))
              else if (case userId configurationCopy of
                         None \<Rightarrow> False | Some u \<Rightarrow> length (trim u) = 0)
              then Inl (PubNubError
                     (''PubNub client configuration error: '' @ quoted ''userId'' @ '' is empty''))
              else Inr (extended_defaults configurationCopy))"

text \<open>
  A configuration that sets nothing but the subscribe key; the examples below start from
  it.
\<close>

definition example_configuration :: user_configuration where
  "example_configuration =
     \<lparr>subscribeKey = ''demo'', publishKey = None, secretKey = None,
      userId = None, uuid = None, ssl = None, origin = None, presenceTimeout = None,
      heartbeatInterval = None, transactionalRequestTimeout = None,
      subscribeRequestTimeout = None, fileRequestTimeout = None, restore = None,
      useInstanceId = None, suppressLeaveEvents = None, requestMessageCountThreshold = None,
      autoNetworkDetection = None, enableEventEngine = None, maintainPresenceState = None,
      useSmartHeartbeat = None, keepAlive = None, dedupeOnSubscribe = None,
      maximumCacheSize = None, useRequestId = None, announceSuccessfulHeartbeats = None,
      announceFailedHeartbeats = None, fileUploadPublishRetryLimit = None\<rparr>"

section \<open>Subscription engine: properties of the Unsubscribed state\<close>

text \<open>
  C1. In the Unsubscribed state a \<^verbatim>\<open>subscriptionChange\<close> event whose channel and group
  lists are both empty has the transition back to Unsubscribed with an undefined (empty)
  context; when at least one of the two lists is non-empty the transition goes to
  Handshaking with exactly the channels and groups of the payload (and no cursor). The
  transition itself carries no effects, and processing it moves the engine to that state
  and context.
\<close>

theorem C1_unsubscribed_subscriptionChange:
  "UnsubscribedState_transition ctx (SubscriptionChange cs gs :: 'p subscribe_event) =
     Some (if cs = [] \<and> gs = []
           then (UnsubscribedState, None, ([] :: 'f list))
           else (HandshakingState, Some \<lparr>channels = cs, groups = gs, cursor = None\<rparr>, []))
   \<and> fst (engine_transition (subscribe_machine other_tables other_enter other_exit)
             \<lparr>currentState = UnsubscribedState, currentContext = ctx\<rparr>
             (SubscriptionChange cs gs))
     = (if cs = [] \<and> gs = []
        then \<lparr>currentState = UnsubscribedState, currentContext = None\<rparr>
        else \<lparr>currentState = HandshakingState,
              currentContext = Some \<lparr>channels = cs, groups = gs, cursor = None\<rparr>\<rparr>)"
  by (simp add: UnsubscribedState_on_subscriptionChange_def state_with_def
      engine_transition_def subscribe_machine_def)




text \<open>
  C5. Whenever the transition table of the current state has no entry for the event,
  processing the event leaves the engine in the same state with the same context and
  emits no effects. The table of the Unsubscribed state has no entry for any event other
  than \<^verbatim>\<open>subscriptionChange\<close> and \<^verbatim>\<open>restore\<close>, so each of those events is such a
  no-op there.
\<close>

theorem C5_no_transition_is_noop:
  "(transitionMap M (currentState eng) (currentContext eng) event = None
      \<longrightarrow> engine_transition M eng event = (eng, []))
   \<and> (subscribe_event_type (ev :: 'p subscribe_event) \<notin> {SUBSCRIPTION_CHANGE, RESTORE}
      \<longrightarrow> (UnsubscribedState_transition ctx ev :: 'f subscribe_transition option) = None
        \<and> engine_transition (subscribe_machine other_tables other_enter other_exit)
             \<lparr>currentState = UnsubscribedState, currentContext = ctx\<rparr> ev
           = (\<lparr>currentState = UnsubscribedState, currentContext = ctx\<rparr>, ([] :: 'f list)))"
  by (cases ev) (simp_all add: engine_transition_def subscribe_machine_def)

theorem C5_no_transition_is_noop_witness:
  "transitionMap (subscribe_machine (\<lambda>_ _ _. None) (\<lambda>_. []) (\<lambda>_. []))
      UnsubscribedState None (SubscribeTimesUp :: unit subscribe_event)
     = (None :: unit subscribe_transition option)
   \<and> subscribe_event_type (SubscribeTimesUp :: unit subscribe_event)
       \<notin> {SUBSCRIPTION_CHANGE, RESTORE}
   \<and> engine_transition (subscribe_machine (\<lambda>_ _ _. None) (\<lambda>_. []) (\<lambda>_. []))
        \<lparr>currentState = UnsubscribedState, currentContext = None\<rparr>
        (SubscribeTimesUp :: unit subscribe_event)
      = (\<lparr>currentState = UnsubscribedState, currentContext = None\<rparr>, ([] :: unit list))"
  using C5_no_transition_is_noop [where 'p = unit and 'f = unit
      and M = "subscribe_machine (\<lambda>_ _ _. None) (\<lambda>_. []) (\<lambda>_. [])
                 :: (subscribe_state, subscribe_context option, unit subscribe_event, unit) machine"
      and eng = "\<lparr>currentState = UnsubscribedState, currentContext = None\<rparr>"
      and event = "SubscribeTimesUp :: unit subscribe_event" and ev = SubscribeTimesUp
      and ctx = None
      and other_tables = "\<lambda>_ _ _. None" and other_enter = "\<lambda>_. []"
      and other_exit = "\<lambda>_. []"]
  by (auto simp add: subscribe_machine_def)

section \<open>Presence engine: properties of the HeartbeatCooldown state\<close>

text \<open>
  C2 as stated fails in its last clause: the \<^verbatim>\<open>left\<close> handler emits
  \<^verbatim>\<open>leave(event.payload.channels, event.payload.groups)\<close>, the payload as given and
  not the members that were removed, and it consults no suppression setting. With the
  context channel \<open>a\<close> and a \<^verbatim>\<open>left\<close> event for the channel \<open>zzz\<close>, no member is
  removed (the removed members, those of the context that the payload names, are none),
  yet a \<^verbatim>\<open>leave\<close> effect for \<open>zzz\<close> is emitted.
\<close>

theorem C2_left_leave_counterexample:
  "HeartbeatCooldownState_transition \<lparr>channels = [''a''], groups = []\<rparr>
      (Left [''zzz''] [] :: unit presence_event)
     = Some (HeartbeatingState, Some \<lparr>channels = [''a''], groups = []\<rparr>,
             [Leave [''zzz''] []])
   \<and> filter (\<lambda>x. x \<in> set [''zzz'']) (channels \<lparr>channels = [''a''], groups = []\<rparr>) = []
   \<and> filter (\<lambda>x. x \<in> set []) (groups \<lparr>channels = [''a''], groups = []\<rparr>) = []
   \<and> [Leave [''zzz''] []] \<noteq> [Leave [] []]
   \<and> [Leave [''zzz''] []] \<noteq> []"
  by (simp add: HeartbeatCooldownState_on_left_def state_with_def)

text \<open>
  C2, amended. In the HeartbeatCooldown state a \<^verbatim>\<open>joined\<close> event has the transition
  to Heartbeating with the union of the current and the payload channels and groups (the
  current members first, then the new ones), and a \<^verbatim>\<open>left\<close> event has the
  transition to Heartbeating with the current members minus those of the payload. Both
  are immediate: processing the event puts the engine in Heartbeating at once, without a
  \<^verbatim>\<open>timesUp\<close>. On \<^verbatim>\<open>left\<close> the transition always emits exactly one
  \<^verbatim>\<open>leave\<close> effect, which carries the channels and groups of the payload as given,
  whether or not they were members; the transition does not look at any suppression of
  leave events.
\<close>

theorem C2_cooldown_joined_left:
  "HeartbeatCooldownState_transition ctx (Joined cs gs :: 'p presence_event) =
     Some (HeartbeatingState,
           Some \<lparr>channels = channels ctx @ filter (\<lambda>x. x \<notin> set (channels ctx)) cs,
                 groups = groups ctx @ filter (\<lambda>x. x \<notin> set (groups ctx)) gs\<rparr>, [])
   \<and> set (channels ctx @ filter (\<lambda>x. x \<notin> set (channels ctx)) cs)
       = set (channels ctx) \<union> set cs
   \<and> set (groups ctx @ filter (\<lambda>x. x \<notin> set (groups ctx)) gs)
       = set (groups ctx) \<union> set gs
   \<and> HeartbeatCooldownState_transition ctx (Left cs gs :: 'p presence_event) =
     Some (HeartbeatingState,
           Some \<lparr>channels = filter (\<lambda>x. x \<notin> set cs) (channels ctx),
                 groups = filter (\<lambda>x. x \<notin> set gs) (groups ctx)\<rparr>, [Leave cs gs])
   \<and> set (filter (\<lambda>x. x \<notin> set cs) (channels ctx)) = set (channels ctx) - set cs
   \<and> set (filter (\<lambda>x. x \<notin> set gs) (groups ctx)) = set (groups ctx) - set gs
   \<and> currentState (fst (engine_transition
         (presence_machine other_tables other_enter other_exit)
         \<lparr>currentState = HeartbeatCooldownState, currentContext = Some ctx\<rparr>
         (Joined cs gs :: 'p presence_event)))
       = HeartbeatingState
   \<and> currentState (fst (engine_transition
         (presence_machine other_tables other_enter other_exit)
         \<lparr>currentState = HeartbeatCooldownState, currentContext = Some ctx\<rparr>
         (Left cs gs :: 'p presence_event)))
       = HeartbeatingState"
  by (auto simp add: HeartbeatCooldownState_on_joined_def HeartbeatCooldownState_on_left_def
      state_with_def engine_transition_def presence_machine_def)

text \<open>
  C3. In the HeartbeatCooldown state a \<^verbatim>\<open>disconnect\<close> event has the transition to
  HeartbeatStopped (keeping the channels and groups) and a \<^verbatim>\<open>leftAll\<close> event has the
  transition to HeartbeatInactive (with an undefined context). In both, the effects are
  exactly one \<^verbatim>\<open>leave\<close> for the current channels and groups when the event is not
  flagged offline, and no effect at all when it is.
\<close>

theorem C3_cooldown_disconnect_leftAll:
  "HeartbeatCooldownState_transition ctx (Disconnect isOffline :: 'p presence_event) =
     Some (HeartbeatStoppedState,
           Some \<lparr>channels = channels ctx, groups = groups ctx\<rparr>,
           if isOffline then [] else [Leave (channels ctx) (groups ctx)])
   \<and> HeartbeatCooldownState_transition ctx (LeftAll isOffline :: 'p presence_event) =
     Some (HeartbeatInactiveState, None,
           if isOffline then [] else [Leave (channels ctx) (groups ctx)])
   \<and> (Leave (channels ctx) (groups ctx)
         \<in> set (if isOffline then [] else [Leave (channels ctx) (groups ctx)])
       \<longleftrightarrow> \<not> isOffline)"
  by (simp add: HeartbeatCooldownState_on_disconnect_def HeartbeatCooldownState_on_leftAll_def
      state_with_def)

text \<open>
  C8. In the HeartbeatCooldown state a \<^verbatim>\<open>timesUp\<close> event has the transition to
  Heartbeating with a context that holds exactly the channels and groups of the cooldown
  context, and with no further effects.
\<close>

theorem C8_cooldown_timesUp:
  "HeartbeatCooldownState_transition ctx (TimesUp :: 'p presence_event) =
     Some (HeartbeatingState, Some \<lparr>channels = channels ctx, groups = groups ctx\<rparr>, [])
   \<and> \<lparr>channels = channels ctx, groups = groups ctx\<rparr> = ctx"
  by (simp add: HeartbeatCooldownState_on_timesUp_def state_with_def)

text \<open>
  C6 as stated fails: the handler filters the payload against the current members only,
  so a member that the payload itself repeats is appended twice. With an empty context
  and the payload channels \<open>room1, room1\<close> the new context holds \<open>room1\<close> twice.
\<close>

theorem C6_joined_duplicates_counterexample:
  "distinct (channels \<lparr>channels = [], groups = []\<rparr>)
   \<and> distinct (groups \<lparr>channels = [], groups = []\<rparr>)
   \<and> HeartbeatCooldownState_transition \<lparr>channels = [], groups = []\<rparr>
         (Joined [''room1'', ''room1''] [] :: unit presence_event)
       = Some (HeartbeatingState, Some \<lparr>channels = [''room1'', ''room1''], groups = []\<rparr>, [])
   \<and> \<not> distinct [''room1'', ''room1'']"
  by (simp add: HeartbeatCooldownState_on_joined_def state_with_def)

text \<open>
  C6, amended. For every HeartbeatCooldown context with duplicate-free channel and group
  lists and every \<^verbatim>\<open>joined\<close> event, the channel and group lists of the resulting
  Heartbeating context are duplicate-free exactly when the payload does not repeat a
  member that is not already present (so in particular for every payload whose lists are
  duplicate-free); and a \<^verbatim>\<open>joined\<close> event whose members are all already present
  yields the same context.
\<close>

theorem C6_joined_keeps_distinct:
  "(distinct (channels ctx) \<and> distinct (groups ctx)
     \<longrightarrow> (\<exists>c'. HeartbeatCooldownState_transition ctx (Joined cs gs :: 'p presence_event)
                 = Some (HeartbeatingState, Some c', [])
               \<and> (distinct (channels c') \<and> distinct (groups c')
                    \<longleftrightarrow> distinct (filter (\<lambda>x. x \<notin> set (channels ctx)) cs)
                        \<and> distinct (filter (\<lambda>x. x \<notin> set (groups ctx)) gs))))
   \<and> (distinct cs \<and> distinct gs
     \<longrightarrow> distinct (filter (\<lambda>x. x \<notin> set (channels ctx)) cs)
         \<and> distinct (filter (\<lambda>x. x \<notin> set (groups ctx)) gs))
   \<and> (set cs \<subseteq> set (channels ctx) \<and> set gs \<subseteq> set (groups ctx)
     \<longrightarrow> HeartbeatCooldownState_transition ctx (Joined cs gs :: 'p presence_event)
           = Some (HeartbeatingState, Some ctx, []))"
proof (intro conjI impI)
  assume "distinct (channels ctx) \<and> distinct (groups ctx)"
  then show "\<exists>c'. HeartbeatCooldownState_transition ctx (Joined cs gs :: 'p presence_event)
                 = Some (HeartbeatingState, Some c', [])
               \<and> (distinct (channels c') \<and> distinct (groups c')
                    \<longleftrightarrow> distinct (filter (\<lambda>x. x \<notin> set (channels ctx)) cs)
                        \<and> distinct (filter (\<lambda>x. x \<notin> set (groups ctx)) gs))"
    by (auto simp add: HeartbeatCooldownState_on_joined_def state_with_def)
next
  assume "distinct cs \<and> distinct gs"
  then show "distinct (filter (\<lambda>x. x \<notin> set (channels ctx)) cs)" by simp
next
  assume "distinct cs \<and> distinct gs"
  then show "distinct (filter (\<lambda>x. x \<notin> set (groups ctx)) gs)" by simp
next
  assume h: "set cs \<subseteq> set (channels ctx) \<and> set gs \<subseteq> set (groups ctx)"
  have c: "filter (\<lambda>x. x \<notin> set (channels ctx)) cs = []"
    using h by (auto simp add: filter_empty_conv)
  have g: "filter (\<lambda>x. x \<notin> set (groups ctx)) gs = []"
    using h by (auto simp add: filter_empty_conv)
  show "HeartbeatCooldownState_transition ctx (Joined cs gs :: 'p presence_event)
          = Some (HeartbeatingState, Some ctx, [])"
    by (simp add: HeartbeatCooldownState_on_joined_def state_with_def c g)
qed

text \<open>
  A context with \<open>room1\<close> and \<open>g1\<close>: joining \<open>room1, room2\<close> adds \<open>room2\<close> once;
  joining \<open>room1\<close> and \<open>g1\<close> again changes nothing.
\<close>

theorem C6_joined_keeps_distinct_witness:
  "distinct [''room1''] \<and> distinct [''g1''] \<and> distinct [''room1'', ''room2'']
   \<and> distinct ([] :: string list)
   \<and> HeartbeatCooldownState_transition \<lparr>channels = [''room1''], groups = [''g1'']\<rparr>
         (Joined [''room1'', ''room2''] [] :: unit presence_event)
       = Some (HeartbeatingState,
               Some \<lparr>channels = [''room1'', ''room2''], groups = [''g1'']\<rparr>, [])
   \<and> distinct [''room1'', ''room2'']
   \<and> set [''room1''] \<subseteq> set [''room1''] \<and> set [''g1''] \<subseteq> set [''g1'']
   \<and> HeartbeatCooldownState_transition \<lparr>channels = [''room1''], groups = [''g1'']\<rparr>
         (Joined [''room1''] [''g1''] :: unit presence_event)
       = Some (HeartbeatingState, Some \<lparr>channels = [''room1''], groups = [''g1'']\<rparr>, [])"
  using C6_joined_keeps_distinct [where 'p = unit
      and ctx = "\<lparr>channels = [''room1''], groups = [''g1'']\<rparr>"
      and cs = "[''room1'', ''room2'']" and gs = "[]"]
    C6_joined_keeps_distinct [where 'p = unit
      and ctx = "\<lparr>channels = [''room1''], groups = [''g1'']\<rparr>"
      and cs = "[''room1'']" and gs = "[''g1'']"]
  by (auto simp add: HeartbeatCooldownState_on_joined_def state_with_def)

lemma dispatch_no_wait: "Wait \<notin> set fs \<Longrightarrow> foldl dispatch False fs = False"
proof (induction fs)
  case Nil
  then show ?case by simp
next
  case (Cons f fs)
  then show ?case by (cases f) simp_all
qed

lemma presence_send_unfold:
  "presence_send M rt event =
     \<lparr>engine = fst (engine_transition M (engine rt) event),
      waitPending = foldl dispatch (waitPending rt) (snd (engine_transition M (engine rt) event))\<rparr>"
  by (simp add: presence_send_def split: prod.splits)

lemma cooldown_targets:
  "HeartbeatCooldownState_transition ctx ev = Some (s_out, c_out, effs_out)
   \<Longrightarrow> s_out \<noteq> HeartbeatCooldownState \<and> Wait \<notin> set effs_out"
  by (cases ev)
     (auto simp add: HeartbeatCooldownState_on_timesUp_def HeartbeatCooldownState_on_joined_def
        HeartbeatCooldownState_on_left_def HeartbeatCooldownState_on_disconnect_def
        HeartbeatCooldownState_on_leftAll_def state_with_def split: if_splits)

text \<open>
  C7. The HeartbeatCooldown state registers \<^verbatim>\<open>wait()\<close> as its enter effect and
  \<^verbatim>\<open>wait.cancel\<close> as its exit effect. So every transition into the state, from any
  state and by any event, ends its effects with \<open>Wait\<close> and leaves a timer pending;
  every transition out of the state leads to another state and starts its effects with
  \<open>Cancel_Wait\<close>; and after such an exit no timer is pending, so the delay running
  out delivers no \<^verbatim>\<open>timesUp\<close> in the successor state (unless that state starts a
  timer of its own on entry).
\<close>

theorem C7_cooldown_wait_lifecycle:
  "(let M = presence_machine other_tables other_enter other_exit in
     (transitionMap M s c (ev :: 'p presence_event) = Some (HeartbeatCooldownState, c_in, effs_in)
        \<longrightarrow> snd (engine_transition M \<lparr>currentState = s, currentContext = c\<rparr> ev)
              = map (\<lambda>effect. effect c) (exitEffects M s) @ effs_in @ [Wait]
          \<and> waitPending (presence_send M
                \<lparr>engine = \<lparr>currentState = s, currentContext = c\<rparr>, waitPending = p\<rparr> ev))
   \<and> (HeartbeatCooldownState_transition ctx (ev_out :: 'p presence_event) = Some (s_out, c_out, effs_out)
        \<longrightarrow> s_out \<noteq> HeartbeatCooldownState
          \<and> snd (engine_transition M
                \<lparr>currentState = HeartbeatCooldownState, currentContext = Some ctx\<rparr> ev_out)
              = Cancel_Wait # effs_out @ map (\<lambda>effect. effect c_out) (other_enter s_out))
   \<and> (HeartbeatCooldownState_transition ctx ev_out = Some (s_out, c_out, effs_out)
        \<and> Wait \<notin> set (map (\<lambda>effect. effect c_out) (other_enter s_out))
        \<longrightarrow> (let rt = presence_send M
                \<lparr>engine = \<lparr>currentState = HeartbeatCooldownState, currentContext = Some ctx\<rparr>,
                 waitPending = True\<rparr> ev_out
             in \<not> waitPending rt \<and> timer_fires M rt = rt)))"
proof -
  let ?M = "presence_machine other_tables other_enter other_exit"
  have a: "transitionMap ?M s c ev = Some (HeartbeatCooldownState, c_in, effs_in)
        \<longrightarrow> snd (engine_transition ?M \<lparr>currentState = s, currentContext = c\<rparr> ev)
              = map (\<lambda>effect. effect c) (exitEffects ?M s) @ effs_in @ [Wait]
          \<and> waitPending (presence_send ?M
                \<lparr>engine = \<lparr>currentState = s, currentContext = c\<rparr>, waitPending = p\<rparr> ev)"
    by (simp add: engine_transition_def presence_send_unfold presence_machine_def
        HeartbeatCooldownState_enterEffects_def)
  have b: "snd (engine_transition ?M
                \<lparr>currentState = HeartbeatCooldownState, currentContext = Some ctx\<rparr> ev_out)
              = Cancel_Wait # effs_out @ map (\<lambda>effect. effect c_out) (other_enter s_out)"
    if h: "HeartbeatCooldownState_transition ctx ev_out = Some (s_out, c_out, effs_out)"
    using h cooldown_targets [OF h]
    by (simp add: engine_transition_def presence_machine_def
        HeartbeatCooldownState_exitEffects_def)
  have c: "\<not> waitPending (presence_send ?M
                \<lparr>engine = \<lparr>currentState = HeartbeatCooldownState, currentContext = Some ctx\<rparr>,
                 waitPending = True\<rparr> ev_out)
           \<and> timer_fires ?M (presence_send ?M
                \<lparr>engine = \<lparr>currentState = HeartbeatCooldownState, currentContext = Some ctx\<rparr>,
                 waitPending = True\<rparr> ev_out)
             = presence_send ?M
                \<lparr>engine = \<lparr>currentState = HeartbeatCooldownState, currentContext = Some ctx\<rparr>,
                 waitPending = True\<rparr> ev_out"
    if h: "HeartbeatCooldownState_transition ctx ev_out = Some (s_out, c_out, effs_out)"
      and n: "Wait \<notin> set (map (\<lambda>effect. effect c_out) (other_enter s_out))"
  proof -
    have "Wait \<notin> set (effs_out @ map (\<lambda>effect. effect c_out) (other_enter s_out))"
      using cooldown_targets [OF h] n by simp
    then have "foldl dispatch False (effs_out @ map (\<lambda>effect. effect c_out) (other_enter s_out)) = False"
      by (rule dispatch_no_wait)
    then have "\<not> waitPending (presence_send ?M
                \<lparr>engine = \<lparr>currentState = HeartbeatCooldownState, currentContext = Some ctx\<rparr>,
                 waitPending = True\<rparr> ev_out)"
      using b [OF h] by (simp add: presence_send_unfold)
    then show ?thesis
      by (simp add: timer_fires_def)
  qed
  show ?thesis
    unfolding Let_def using a b c cooldown_targets [of ctx ev_out s_out c_out effs_out] by blast
qed

theorem C7_cooldown_wait_lifecycle_witness:
  "(let M = presence_machine spec_other_tables (\<lambda>_. []) (\<lambda>_. []);
        members = \<lparr>channels = [''room1''], groups = []\<rparr> in
     transitionMap M HeartbeatingState (Some members) (HeartbeatSuccess ())
       = Some (HeartbeatCooldownState, Some members, [])
     \<and> snd (engine_transition M
              \<lparr>currentState = HeartbeatingState, currentContext = Some members\<rparr>
              (HeartbeatSuccess ()))
         = [Wait]
     \<and> waitPending (presence_send M
              \<lparr>engine = \<lparr>currentState = HeartbeatingState, currentContext = Some members\<rparr>,
               waitPending = False\<rparr> (HeartbeatSuccess ()))
     \<and> HeartbeatCooldownState_transition members (Left [''room1''] [] :: unit presence_event)
         = Some (HeartbeatingState, Some \<lparr>channels = [], groups = []\<rparr>,
                 [Leave [''room1''] []])
     \<and> snd (engine_transition M
              \<lparr>currentState = HeartbeatCooldownState, currentContext = Some members\<rparr>
              (Left [''room1''] []))
         = [Cancel_Wait, Leave [''room1''] []]
     \<and> \<not> waitPending (presence_send M
              \<lparr>engine = \<lparr>currentState = HeartbeatCooldownState, currentContext = Some members\<rparr>,
               waitPending = True\<rparr> (Left [''room1''] []))
     \<and> timer_fires M (presence_send M
              \<lparr>engine = \<lparr>currentState = HeartbeatCooldownState, currentContext = Some members\<rparr>,
               waitPending = True\<rparr> (Left [''room1''] []))
         = presence_send M
              \<lparr>engine = \<lparr>currentState = HeartbeatCooldownState, currentContext = Some members\<rparr>,
               waitPending = True\<rparr> (Left [''room1''] []))"
  using C7_cooldown_wait_lifecycle [where 'p = unit
      and other_tables = spec_other_tables and other_enter = "\<lambda>_. []" and other_exit = "\<lambda>_. []"
      and s = HeartbeatingState and c = "Some \<lparr>channels = [''room1''], groups = []\<rparr>"
      and ev = "HeartbeatSuccess ()" and c_in = "Some \<lparr>channels = [''room1''], groups = []\<rparr>"
      and effs_in = "[]" and p = False
      and ctx = "\<lparr>channels = [''room1''], groups = []\<rparr>" and ev_out = "Left [''room1''] []"
      and s_out = HeartbeatingState and c_out = "Some \<lparr>channels = [], groups = []\<rparr>"
      and effs_out = "[Leave [''room1''] []]"]
  by (auto simp add: Let_def presence_machine_def spec_other_tables_def
      HeartbeatCooldownState_on_left_def state_with_def)

section \<open>App Context requests: properties of validation\<close>

text \<open>
  C9. For every Set Channel Members request, \<^verbatim>\<open>validate\<close> returns an error message
  exactly when the channel is empty (missing or the empty string) or the list of uuids is
  missing or empty. For every Set UUID Memberships request, \<^verbatim>\<open>validate\<close> returns an
  error message exactly when the uuid of the request is empty or the list of channels is
  missing or empty; the uuid of the request is the \<^verbatim>\<open>userId\<close> parameter when that is
  a non-empty string, and the \<^verbatim>\<open>uuid\<close> parameter otherwise. In every other case
  \<^verbatim>\<open>validate\<close> returns no error. The check is a pure function of the parameters: it
  makes no request and touches no engine state.
\<close>

theorem C9_validate_members_memberships:
  "(SetChannelMembersRequest_validate (SetChannelMembersRequest p) \<noteq> None
      \<longleftrightarrow> falsy (channel p) \<or> uuids p = None \<or> uuids p = Some [])
   \<and> (SetUUIDMembershipsRequest_validate (SetUUIDMembershipsRequest q) \<noteq> None
      \<longleftrightarrow> falsy (parameters_uuid (SetUUIDMembershipsRequest q))
          \<or> parameters_channels q = None \<or> parameters_channels q = Some [])
   \<and> parameters_uuid (SetUUIDMembershipsRequest q)
       = (if falsy (parameters_userId q) then parameters_uuid q else parameters_userId q)
   \<and> parameters_channels (SetUUIDMembershipsRequest q) = parameters_channels q"
  by (auto simp add: SetChannelMembersRequest_validate_def SetChannelMembersRequest_def
      SetUUIDMembershipsRequest_validate_def SetUUIDMembershipsRequest_def Let_def
      split: option.splits)

section \<open>Client configuration: properties of \<^verbatim>\<open>setDefaults\<close>\<close>

lemma trim_empty_iff: "trim s = [] \<longleftrightarrow> list_all isWhiteSpace s"
proof -
  have "trim s = [] \<longleftrightarrow> (\<forall>x\<in>set (dropWhile isWhiteSpace s). isWhiteSpace x)"
    by (simp add: trim_def)
  also have "\<dots> \<longleftrightarrow> dropWhile isWhiteSpace s = []"
  proof
    assume all: "\<forall>x\<in>set (dropWhile isWhiteSpace s). isWhiteSpace x"
    show "dropWhile isWhiteSpace s = []"
    proof (rule ccontr)
      assume ne: "dropWhile isWhiteSpace s \<noteq> []"
      then have "\<not> isWhiteSpace (hd (dropWhile isWhiteSpace s))"
        by (rule hd_dropWhile)
      moreover have "hd (dropWhile isWhiteSpace s) \<in> set (dropWhile isWhiteSpace s)"
        using ne by simp
      ultimately show False using all by blast
    qed
  next
    assume "dropWhile isWhiteSpace s = []"
    then show "\<forall>x\<in>set (dropWhile isWhiteSpace s). isWhiteSpace x"
      by (simp del: dropWhile_eq_Nil_conv)
  qed
  also have "\<dots> \<longleftrightarrow> list_all isWhiteSpace s"
    by (simp add: list_all_iff)
  finally show ?thesis .
qed

lemma base_defaults_identity:
  "userId (base_defaults c) = userId c \<and> uuid (base_defaults c) = uuid c"
  by (simp add: base_defaults_def)

text \<open>
  C10 as stated fails: the first check of \<^verbatim>\<open>setDefaults\<close> is
  \<^verbatim>\<open>userId && uuid\<close>, which an empty string does not pass. A configuration that
  sets \<^verbatim>\<open>userId\<close> to \<open>a\<close> and \<^verbatim>\<open>uuid\<close> to the empty string sets both, and
  \<^verbatim>\<open>setDefaults\<close> returns normally.
\<close>

theorem C10_sets_both_counterexample:
  "userId (example_configuration\<lparr>userId := Some [0x61], uuid := Some []\<rparr>) \<noteq> None
   \<and> uuid (example_configuration\<lparr>userId := Some [0x61], uuid := Some []\<rparr>) \<noteq> None
   \<and> \<not> isl (setDefaults (example_configuration\<lparr>userId := Some [0x61], uuid := Some []\<rparr>))"
  by (simp add: setDefaults_def Let_def base_defaults_identity truthy_def
      nullish_coalesce_def example_configuration_def trim_def isWhiteSpace_def)

text \<open>
  C10, amended. \<^verbatim>\<open>setDefaults\<close> throws a \<^verbatim>\<open>PubNubError\<close> for every configuration
  in which \<^verbatim>\<open>userId\<close> and \<^verbatim>\<open>uuid\<close> are both non-empty strings. Otherwise the
  user identifier is \<^verbatim>\<open>userId\<close>, or \<^verbatim>\<open>uuid\<close> when \<^verbatim>\<open>userId\<close> is absent, and
  \<^verbatim>\<open>setDefaults\<close> throws a \<^verbatim>\<open>PubNubError\<close> exactly when that identifier is
  still unset or consists only of white space, which is the same as trimming to length
  zero. For every other configuration it returns normally, with the defaults applied
  and that identifier as \<^verbatim>\<open>userId\<close>.
\<close>

theorem C10_setDefaults_user_identifier:
  "(truthy (userId c) \<and> truthy (uuid c)
      \<longrightarrow> setDefaults c
          = Inl (PubNubError (''PubNub client configuration error: use only '' @ quoted ''userId'')))
   \<and> (\<not> (truthy (userId c) \<and> truthy (uuid c))
      \<longrightarrow> (isl (setDefaults c)
           \<longleftrightarrow> (case nullish_coalesce (userId c) (uuid c) of
                  None \<Rightarrow> True | Some u \<Rightarrow> list_all isWhiteSpace u)))
   \<and> (list_all isWhiteSpace u \<longleftrightarrow> length (trim u) = 0)
   \<and> (\<not> isl (setDefaults c)
      \<longrightarrow> setDefaults c
          = Inr (extended_defaults
                  ((base_defaults c)\<lparr>userId := nullish_coalesce (userId c) (uuid c)\<rparr>)))"
  by (auto simp add: setDefaults_def Let_def base_defaults_identity truthy_def
      nullish_coalesce_def trim_empty_iff split: option.splits)

text \<open>
  Three configurations: both identifiers set (\<open>a\<close> and \<open>b\<close>); only \<^verbatim>\<open>uuid\<close> set
  (\<open>myUUID\<close>, as the tests configure the client); \<^verbatim>\<open>userId\<close> made of two spaces.
\<close>

theorem C10_setDefaults_user_identifier_witness:
  "truthy (userId (example_configuration\<lparr>userId := Some [0x61], uuid := Some [0x62]\<rparr>))
   \<and> truthy (uuid (example_configuration\<lparr>userId := Some [0x61], uuid := Some [0x62]\<rparr>))
   \<and> setDefaults (example_configuration\<lparr>userId := Some [0x61], uuid := Some [0x62]\<rparr>)
       = Inl (PubNubError (''PubNub client configuration error: use only '' @ quoted ''userId''))
   \<and> \<not> truthy (userId (example_configuration
                           \<lparr>uuid := Some [0x6D, 0x79, 0x55, 0x55, 0x49, 0x44]\<rparr>))
   \<and> \<not> isl (setDefaults (example_configuration
                             \<lparr>uuid := Some [0x6D, 0x79, 0x55, 0x55, 0x49, 0x44]\<rparr>))
   \<and> setDefaults (example_configuration\<lparr>uuid := Some [0x6D, 0x79, 0x55, 0x55, 0x49, 0x44]\<rparr>)
       = Inr (extended_defaults
               ((base_defaults example_configuration)
                  \<lparr>userId := Some [0x6D, 0x79, 0x55, 0x55, 0x49, 0x44],
                   uuid := Some [0x6D, 0x79, 0x55, 0x55, 0x49, 0x44]\<rparr>))
   \<and> list_all isWhiteSpace [0x20, 0x20]
   \<and> isl (setDefaults (example_configuration\<lparr>userId := Some [0x20, 0x20]\<rparr>))"
  using C10_setDefaults_user_identifier
      [where c = "example_configuration\<lparr>userId := Some [0x61], uuid := Some [0x62]\<rparr>"
         and u = "[0x20, 0x20]"]
    C10_setDefaults_user_identifier
      [where c = "example_configuration\<lparr>uuid := Some [0x6D, 0x79, 0x55, 0x55, 0x49, 0x44]\<rparr>"
         and u = "[0x20, 0x20]"]
    C10_setDefaults_user_identifier
      [where c = "example_configuration\<lparr>userId := Some [0x20, 0x20]\<rparr>"
         and u = "[0x20, 0x20]"]
  by (auto simp add: truthy_def nullish_coalesce_def example_configuration_def
      isWhiteSpace_def base_defaults_def)

end
